theory Spec2Isabelle
  imports Main
begin

section \<open>RBAC tables (shared/database/schema/rbac.ts)\<close>

text \<open>
  The four Postgres tables of the RBAC schema. Every column of the source is kept; a
  \<open>text\<close> column is a \<open>string\<close>, a nullable one a \<open>string option\<close>, a timestamp a
  natural number. A table is the list of its rows.
\<close>

record role =
  role_id :: string
  role_name :: string
  role_description :: "string option"
  role_createdAt :: nat
  role_updatedAt :: nat

record permission =
  perm_id :: string
  perm_name :: string
  perm_resource :: string
  perm_action :: string
  perm_description :: "string option"
  perm_createdAt :: nat

record rolePermission =
  rp_roleId :: string
  rp_permissionId :: string
  rp_createdAt :: nat

record userRole =
  ur_userId :: string
  ur_roleId :: string
  ur_createdAt :: nat

record schema =
  roles :: "role list"
  permissions :: "permission list"
  rolePermissions :: "rolePermission list"
  userRoles :: "userRole list"

text \<open>\<open>ROLE_NAMES\<close> and \<open>ADMIN_ROLES\<close>, the constants at the end of the schema file.\<close>

definition SUPER_ADMIN :: string where "SUPER_ADMIN = ''super_admin''"
definition EDITOR :: string where "EDITOR = ''editor''"
definition CONTENT_MANAGER :: string where "CONTENT_MANAGER = ''content_manager''"
definition CUSTOMER :: string where "CUSTOMER = ''customer''"

definition ADMIN_ROLES :: "string list" where
  "ADMIN_ROLES = [SUPER_ADMIN, EDITOR, CONTENT_MANAGER]"

section \<open>The database handle\<close>

text \<open>
  \<open>ctx.db\<close> is a connection to a store outside the process. A query against it either
  resolves with rows or rejects with the driver's error. The handle is threaded through
  every procedure as explicit state: \<open>tables\<close> holds the current rows, \<open>issued\<close> records
  each statement sent (the call-count instrumentation), and \<open>faults\<close> lists which
  statements, counted from the first one ever sent on this handle, the store rejects and
  with which message.
\<close>

datatype query =
  UserRolesJoinRoles string
| UserRolesJoinPermissions string string
| FromRoles

record DB =
  tables :: schema
  issued :: "query list"
  faults :: "(nat \<times> string) list"

text \<open>
  The tRPC error codes that occur here. The helpers throw the first two themselves;
  \<open>INTERNAL_SERVER_ERROR\<close> is the code the specification calls Internal.
\<close>

datatype TRPC_code = UNAUTHORIZED | FORBIDDEN | INTERNAL_SERVER_ERROR

text \<open>
  What a procedure can throw: a \<open>TRPCError\<close> built by the helpers themselves (a code and
  an optional message), or the error of a rejected database statement, which no helper
  catches.
\<close>

datatype thrown =
  TRPCError TRPC_code "string option"
| StoreError string

type_synonym ('c, 'r) resolver = "'c \<Rightarrow> DB \<Rightarrow> (thrown + 'r) \<times> DB"

definition execute :: "query \<Rightarrow> (schema \<Rightarrow> 'a) \<Rightarrow> DB \<Rightarrow> (thrown + 'a) \<times> DB" where
  "execute q sel db =
     (let db' = db\<lparr>issued := issued db @ [q]\<rparr> in
      case map_of (faults db) (length (issued db)) of
        Some msg \<Rightarrow> (Inl (StoreError msg), db')
      | None \<Rightarrow> (Inr (sel (tables db)), db'))"

subsection \<open>The three statements, as relational algebra on the rows\<close>

text \<open>
  The role statements share \<open>from user_roles inner join roles on roles.id =
  user_roles.role_id where user_roles.user_id = uid\<close>; \<open>adminProcedure\<close> selects
  \<open>{roleName}\<close>, \<open>checkAccess\<close> selects \<open>{roleName, roleId}\<close>.
\<close>

record roleNameRow =
  roleName :: string

record roleNameIdRow = roleNameRow +
  roleId :: string

definition selectRoleName :: "string \<Rightarrow> schema \<Rightarrow> roleNameRow list" where
  "selectRoleName uid s =
     [\<lparr>roleName = role_name r\<rparr>.
        ur \<leftarrow> userRoles s, r \<leftarrow> roles s, role_id r = ur_roleId ur, ur_userId ur = uid]"

definition selectRoleNameId :: "string \<Rightarrow> schema \<Rightarrow> roleNameIdRow list" where
  "selectRoleNameId uid s =
     [\<lparr>roleName = role_name r, roleId = role_id r\<rparr>.
        ur \<leftarrow> userRoles s, r \<leftarrow> roles s, role_id r = ur_roleId ur, ur_userId ur = uid]"

text \<open>
  \<open>select user_roles.user_id from user_roles inner join roles \<dots> inner join
  role_permissions \<dots> inner join permissions \<dots> where user_roles.user_id = uid and
  permissions.name = requiredPermission limit 1\<close>.
\<close>

definition selectUserPermission :: "string \<Rightarrow> string \<Rightarrow> schema \<Rightarrow> string list" where
  "selectUserPermission uid requiredPermission s =
     take 1
       [ur_userId ur.
          ur \<leftarrow> userRoles s,
          r \<leftarrow> roles s, role_id r = ur_roleId ur,
          rp \<leftarrow> rolePermissions s, rp_roleId rp = role_id r,
          p \<leftarrow> permissions s, perm_id p = rp_permissionId rp,
          ur_userId ur = uid \<and> perm_name p = requiredPermission]"

record roleView =
  rv_id :: string
  rv_name :: string
  rv_description :: "string option"

text \<open>\<open>select id, name, description from roles\<close>.\<close>

definition selectRoles :: "schema \<Rightarrow> roleView list" where
  "selectRoles s =
     map (\<lambda>r. \<lparr>rv_id = role_id r, rv_name = role_name r,
                rv_description = role_description r\<rparr>) (roles s)"

section \<open>Request context (shared/api-helpers/src/context.ts)\<close>

record User =
  user_id :: string
  user_email :: string
  user_name :: string

record SessionRow =
  session_id :: string
  session_userId :: string
  session_createdAt :: nat
  session_updatedAt :: nat

text \<open>What \<open>auth.getSession\<close> resolves to: the session row and the user it belongs to.\<close>

record Session =
  session_row :: SessionRow
  user :: User

type_synonym Headers = "(string \<times> string) list"

text \<open>
  The base context carries the auth service and the request; its \<open>db\<close> member is the
  handle above. \<open>protectedProcedure\<close> adds \<open>session\<close>, \<open>adminProcedure\<close> adds
  \<open>userRoles\<close> (here \<open>ctx_userRoles\<close>, the table already owns the name).
  Session resolution is the external collaborator of the specification's section 6, with
  the contract \<open>getSession(credentials) -> Principal | null\<close>: it answers with a
  session or with none.
\<close>

record TRPCContext =
  getSession :: "Headers \<Rightarrow> Session option"
  req_headers :: Headers

record ProtectedContext = TRPCContext +
  session :: Session

record AdminContext = ProtectedContext +
  ctx_userRoles :: "string list"

section \<open>Procedure helpers (shared/api-helpers/src/index.ts)\<close>

text \<open>
  A middleware receives the context and \<open>next\<close>, the rest of the chain; it either throws
  or returns what \<open>next\<close> returns on an extended context.
\<close>

definition protectedProcedure ::
  "(ProtectedContext, 'r) resolver \<Rightarrow> (TRPCContext, 'r) resolver" where
  "protectedProcedure nxt ctx db =
     (case getSession ctx (req_headers ctx) of
        None \<Rightarrow> (Inl (TRPCError UNAUTHORIZED None), db)
      | Some s \<Rightarrow>
          nxt \<lparr>getSession = getSession ctx, req_headers = req_headers ctx, session = s\<rparr> db)"

definition adminMiddleware ::
  "(AdminContext, 'r) resolver \<Rightarrow> (ProtectedContext, 'r) resolver" where
  "adminMiddleware nxt ctx db =
     (case execute (UserRolesJoinRoles (user_id (user (session ctx))))
             (selectRoleName (user_id (user (session ctx)))) db of
        (Inl e, db') \<Rightarrow> (Inl e, db')
      | (Inr userRoleRecords, db') \<Rightarrow>
          (let userRoleNames = map roleName userRoleRecords;
               isAdmin = list_ex (\<lambda>roleName. roleName \<in> set ADMIN_ROLES) userRoleNames
           in if \<not> isAdmin
              then (Inl (TRPCError FORBIDDEN (Some ''Admin access required'')), db')
              else nxt \<lparr>getSession = getSession ctx, req_headers = req_headers ctx,
                        session = session ctx, ctx_userRoles = userRoleNames\<rparr> db'))"

definition adminProcedure ::
  "(AdminContext, 'r) resolver \<Rightarrow> (TRPCContext, 'r) resolver" where
  "adminProcedure nxt = protectedProcedure (adminMiddleware nxt)"

definition permissionMessage :: "string \<Rightarrow> string" where
  "permissionMessage requiredPermission =
     ''Permission '' @ [CHR 0x27] @ requiredPermission @ [CHR 0x27] @ '' required''"

definition permissionMiddleware ::
  "string \<Rightarrow> (AdminContext, 'r) resolver \<Rightarrow> (AdminContext, 'r) resolver" where
  "permissionMiddleware requiredPermission nxt ctx db =
     (if ''super_admin'' \<in> set (ctx_userRoles ctx) then nxt ctx db
      else
        case execute
               (UserRolesJoinPermissions (user_id (user (session ctx))) requiredPermission)
               (selectUserPermission (user_id (user (session ctx))) requiredPermission) db of
          (Inl e, db') \<Rightarrow> (Inl e, db')
        | (Inr hasPermission, db') \<Rightarrow>
            if length hasPermission = 0
            then (Inl (TRPCError FORBIDDEN (Some (permissionMessage requiredPermission))), db')
            else nxt ctx db')"

definition createPermissionProcedure ::
  "string \<Rightarrow> (AdminContext, 'r) resolver \<Rightarrow> (TRPCContext, 'r) resolver" where
  "createPermissionProcedure requiredPermission nxt =
     adminProcedure (permissionMiddleware requiredPermission nxt)"

section \<open>The caller-facing boundary\<close>

text \<open>
  Modelled from the spec: how a thrown value is reported to the caller. The boundary is
  the tRPC library's, whose code is not in the repository. Sections 4.1 and 7 of the
  specification say that the guard's own errors are raised as they are and that a store
  failure propagates as an Internal error, distinct from Forbidden. A \<open>TRPCError\<close>
  therefore stays what it is, and the error of a rejected statement is reported with the
  code \<open>INTERNAL_SERVER_ERROR\<close>, carrying the store's message.
\<close>

fun surface :: "thrown \<Rightarrow> thrown" where
  "surface (TRPCError code message) = TRPCError code message"
| "surface (StoreError msg) = TRPCError INTERNAL_SERVER_ERROR (Some msg)"

text \<open>
  Modelled from the spec: a procedure as its caller sees it. A result is returned as it
  is; a thrown value is reported through \<open>surface\<close>. Nothing is retried: the procedure
  runs once.
\<close>

definition atBoundary :: "('c, 'r) resolver \<Rightarrow> ('c, 'r) resolver" where
  "atBoundary proc ctx db =
     (case proc ctx db of
        (Inl e, db') \<Rightarrow> (Inl (surface e), db')
      | (Inr v, db') \<Rightarrow> (Inr v, db'))"

section \<open>The cms router (packages/cms)\<close>

record access =
  isAdmin :: bool
  access_roles :: "string list"

definition checkAccess :: "(TRPCContext, access) resolver" where
  "checkAccess =
     protectedProcedure (\<lambda>ctx db.
       case execute (UserRolesJoinRoles (user_id (user (session ctx))))
              (selectRoleNameId (user_id (user (session ctx)))) db of
         (Inl e, db') \<Rightarrow> (Inl e, db')
       | (Inr userRoleRecords, db') \<Rightarrow>
           (let userRoleNames = map roleName userRoleRecords;
                isAdmin = list_ex (\<lambda>roleName. roleName \<in> set ADMIN_ROLES) userRoleNames
            in (Inr \<lparr>isAdmin = isAdmin, access_roles = userRoleNames\<rparr>, db')))"

definition listRoles :: "(TRPCContext, roleView list) resolver" where
  "listRoles =
     protectedProcedure (\<lambda>ctx db.
       case execute FromRoles selectRoles db of
         (Inl e, db') \<Rightarrow> (Inl e, db')
       | (Inr allRoles, db') \<Rightarrow> (Inr allRoles, db'))"

section \<open>Vocabulary of the properties\<close>

text \<open>
  A guard is observed by handing it \<open>pass\<close>, the resolver that returns the context it
  receives: the guard allows a call exactly when \<open>pass\<close> is reached. Lemma
  \<open>createPermissionProcedure_factor\<close> and its siblings below show that with any other
  resolver the guard throws the same error or runs that resolver on the same context.
\<close>

definition pass :: "('c, 'c) resolver" where
  "pass ctx db = (Inr ctx, db)"

text \<open>
  A resolver that leaves a trace: it sends a statement of its own, so a run that reaches
  it is visible in \<open>issued\<close>.
\<close>

definition probe :: "(AdminContext, unit) resolver" where
  "probe ctx db = (Inr (), db\<lparr>issued := issued db @ [FromRoles]\<rparr>)"

definition allows ::
  "(('c, 'c) resolver \<Rightarrow> (TRPCContext, 'c) resolver) \<Rightarrow> TRPCContext \<Rightarrow> DB \<Rightarrow> bool" where
  "allows proc ctx db = (\<not> isl (fst (proc pass ctx db)))"

text \<open>The role names the role statement resolves for a principal, as a set.\<close>

definition rolesOf :: "string \<Rightarrow> schema \<Rightarrow> string set" where
  "rolesOf uid s = set (map roleName (selectRoleName uid s))"

text \<open>
  The specification's wording of a grant: the store holds a UserRole row of the principal,
  the Role row it points to, a RolePermission row of that role and the Permission row it
  points to, whose name is the permission asked for.
\<close>

definition grantChain :: "schema \<Rightarrow> string \<Rightarrow> string \<Rightarrow> bool" where
  "grantChain s uid perm =
     (\<exists>ur \<in> set (userRoles s). \<exists>r \<in> set (roles s).
        \<exists>rp \<in> set (rolePermissions s). \<exists>p \<in> set (permissions s).
          ur_userId ur = uid \<and> role_id r = ur_roleId ur \<and> rp_roleId rp = role_id r \<and>
          perm_id p = rp_permissionId rp \<and> perm_name p = perm)"

text \<open>
  A UserRole row derives a permission when the role it points to is \<open>super_admin\<close> or is
  granted the permission through a RolePermission and a Permission row.
\<close>

definition derives :: "schema \<Rightarrow> string \<Rightarrow> userRole \<Rightarrow> bool" where
  "derives s perm ur =
     (\<exists>r \<in> set (roles s). role_id r = ur_roleId ur \<and>
        (role_name r = ''super_admin'' \<or>
         (\<exists>rp \<in> set (rolePermissions s). \<exists>p \<in> set (permissions s).
            rp_roleId rp = role_id r \<and> perm_id p = rp_permissionId rp \<and>
            perm_name p = perm)))"

subsection \<open>Concrete stores\<close>

text \<open>
  The roles of the seeding script in the CMS documentation, the test user of the testing
  guide, and permissions named in the documentation.
\<close>

definition seedRoles :: "role list" where
  "seedRoles =
     [\<lparr>role_id = ''role_super'', role_name = ''super_admin'',
        role_description = Some ''Full system access'', role_createdAt = 1, role_updatedAt = 1\<rparr>,
      \<lparr>role_id = ''role_editor'', role_name = ''editor'',
        role_description = Some ''Content and product management'',
        role_createdAt = 1, role_updatedAt = 1\<rparr>,
      \<lparr>role_id = ''role_content'', role_name = ''content_manager'',
        role_description = Some ''Limited content editing'',
        role_createdAt = 1, role_updatedAt = 1\<rparr>,
      \<lparr>role_id = ''role_customer'', role_name = ''customer'',
        role_description = Some ''Regular user account'',
        role_createdAt = 1, role_updatedAt = 2\<rparr>,
      \<lparr>role_id = ''role_support'', role_name = ''support'',
        role_description = None, role_createdAt = 3, role_updatedAt = 3\<rparr>]"

definition seedPermissions :: "permission list" where
  "seedPermissions =
     [\<lparr>perm_id = ''p_create'', perm_name = ''cms.pages.create'', perm_resource = ''cms.pages'',
        perm_action = ''create'', perm_description = None, perm_createdAt = 1\<rparr>,
      \<lparr>perm_id = ''p_view'', perm_name = ''orders.view'', perm_resource = ''orders'',
        perm_action = ''view'', perm_description = None, perm_createdAt = 1\<rparr>,
      \<lparr>perm_id = ''p_update'', perm_name = ''orders.update'', perm_resource = ''orders'',
        perm_action = ''update'', perm_description = None, perm_createdAt = 1\<rparr>]"

definition grant :: "string \<Rightarrow> string \<Rightarrow> rolePermission" where
  "grant rid pid = \<lparr>rp_roleId = rid, rp_permissionId = pid, rp_createdAt = 5\<rparr>"

definition assign :: "string \<Rightarrow> string \<Rightarrow> userRole" where
  "assign uid rid = \<lparr>ur_userId = uid, ur_roleId = rid, ur_createdAt = 7\<rparr>"

definition store :: "rolePermission list \<Rightarrow> userRole list \<Rightarrow> schema" where
  "store rps urs =
     \<lparr>roles = seedRoles, permissions = seedPermissions, rolePermissions = rps,
      userRoles = urs\<rparr>"

definition johnDoe :: Session where
  "johnDoe =
     \<lparr>session_row = \<lparr>session_id = ''S0001'', session_userId = ''U0001'',
                      session_createdAt = 0, session_updatedAt = 0\<rparr>,
      user = \<lparr>user_id = ''U0001'', user_email = ''johndoe@example.com'',
              user_name = ''John Doe''\<rparr>\<rparr>"

definition signedIn :: TRPCContext where
  "signedIn = \<lparr>getSession = (\<lambda>h. Some johnDoe), req_headers = []\<rparr>"

definition anonymous :: TRPCContext where
  "anonymous = \<lparr>getSession = (\<lambda>h. None), req_headers = []\<rparr>"

definition handle :: "schema \<Rightarrow> (nat \<times> string) list \<Rightarrow> DB" where
  "handle s fs = \<lparr>tables = s, issued = [], faults = fs\<rparr>"

text \<open>John holds only \<open>customer\<close>, and \<open>customer\<close> is granted \<open>orders.view\<close>.\<close>

definition customerStore :: schema where
  "customerStore = store [grant ''role_customer'' ''p_view''] [assign ''U0001'' ''role_customer'']"

text \<open>John holds \<open>editor\<close>, granted \<open>cms.pages.create\<close> and nothing else.\<close>

definition editorStore :: schema where
  "editorStore = store [grant ''role_editor'' ''p_create''] [assign ''U0001'' ''role_editor'']"

text \<open>John holds \<open>super_admin\<close>; no RolePermission row exists at all.\<close>

definition superStore :: schema where
  "superStore = store [] [assign ''U0001'' ''role_super'']"

text \<open>
  John holds two roles outside the admin set: \<open>customer\<close> grants \<open>orders.view\<close>,
  \<open>support\<close> grants \<open>orders.update\<close>.
\<close>

definition twoPlainRolesStore :: schema where
  "twoPlainRolesStore =
     store [grant ''role_customer'' ''p_view'', grant ''role_support'' ''p_update'']
           [assign ''U0001'' ''role_customer'', assign ''U0001'' ''role_support'']"

text \<open>John holds \<open>editor\<close>, granting \<open>cms.pages.create\<close>, and \<open>customer\<close>, granting \<open>orders.view\<close>.\<close>

definition twoRolesStore :: schema where
  "twoRolesStore =
     store [grant ''role_editor'' ''p_create'', grant ''role_customer'' ''p_view'']
           [assign ''U0001'' ''role_editor'', assign ''U0001'' ''role_customer'']"

text \<open>Roles are provisioned, nobody holds one.\<close>

definition noAssignmentStore :: schema where
  "noAssignmentStore = store [grant ''role_editor'' ''p_create''] [assign ''U0002'' ''role_editor'']"

section \<open>Auxiliary facts\<close>

lemma execute_ok:
  "map_of (faults db) (length (issued db)) = None \<Longrightarrow>
   execute q sel db = (Inr (sel (tables db)), db\<lparr>issued := issued db @ [q]\<rparr>)"
  by (simp add: execute_def)

lemma execute_fault:
  "map_of (faults db) (length (issued db)) = Some msg \<Longrightarrow>
   execute q sel db = (Inl (StoreError msg), db\<lparr>issued := issued db @ [q]\<rparr>)"
  by (simp add: execute_def)

lemma take_one_empty: "take 1 xs = [] \<longleftrightarrow> xs = []"
  by (cases xs) simp_all

text \<open>The permission statement returns a row exactly when the store holds a grant chain.\<close>

lemma selectUserPermission_chain:
  "selectUserPermission uid perm s \<noteq> [] \<longleftrightarrow> grantChain s uid perm"
proof -
  let ?rows = "[ur_userId ur.
          ur \<leftarrow> userRoles s,
          r \<leftarrow> roles s, role_id r = ur_roleId ur,
          rp \<leftarrow> rolePermissions s, rp_roleId rp = role_id r,
          p \<leftarrow> permissions s, perm_id p = rp_permissionId rp,
          ur_userId ur = uid \<and> perm_name p = perm]"
  have "selectUserPermission uid perm s \<noteq> [] \<longleftrightarrow> set ?rows \<noteq> {}"
    unfolding selectUserPermission_def take_one_empty by (simp only: set_empty)
  also have "\<dots> \<longleftrightarrow> grantChain s uid perm"
    unfolding grantChain_def by (auto split: if_splits) blast
  finally show ?thesis .
qed

lemma isAdmin_rolesOf:
  "list_ex (\<lambda>roleName. roleName \<in> set ADMIN_ROLES) (map roleName (selectRoleName uid s))
     \<longleftrightarrow> rolesOf uid s \<inter> set ADMIN_ROLES \<noteq> {}"
  by (auto simp: rolesOf_def list_ex_iff)

text \<open>Each guard throws its own error or hands its context to the rest of the chain.\<close>

lemma protectedProcedure_factor:
  "protectedProcedure nxt ctx db =
     (case protectedProcedure pass ctx db of
        (Inl e, db') \<Rightarrow> (Inl e, db')
      | (Inr c, db') \<Rightarrow> nxt c db')"
  by (simp add: protectedProcedure_def pass_def split: option.splits)

lemma adminMiddleware_factor:
  "adminMiddleware nxt ctx db =
     (case adminMiddleware pass ctx db of
        (Inl e, db') \<Rightarrow> (Inl e, db')
      | (Inr c, db') \<Rightarrow> nxt c db')"
  by (simp add: adminMiddleware_def pass_def Let_def split: prod.splits sum.splits)

lemma permissionMiddleware_factor:
  "permissionMiddleware p nxt ctx db =
     (case permissionMiddleware p pass ctx db of
        (Inl e, db') \<Rightarrow> (Inl e, db')
      | (Inr c, db') \<Rightarrow> nxt c db')"
  by (simp add: permissionMiddleware_def pass_def Let_def split: prod.splits sum.splits)

lemma adminProcedure_factor:
  "adminProcedure nxt ctx db =
     (case adminProcedure pass ctx db of
        (Inl e, db') \<Rightarrow> (Inl e, db')
      | (Inr c, db') \<Rightarrow> nxt c db')"
  unfolding adminProcedure_def protectedProcedure_def
  by (cases "getSession ctx (req_headers ctx)")
     (simp_all add: adminMiddleware_factor [of nxt])

lemma createPermissionProcedure_factor:
  "createPermissionProcedure p nxt ctx db =
     (case createPermissionProcedure p pass ctx db of
        (Inl e, db') \<Rightarrow> (Inl e, db')
      | (Inr c, db') \<Rightarrow> nxt c db')"
  unfolding createPermissionProcedure_def
  apply (subst adminProcedure_factor)
  apply (subst (2) adminProcedure_factor)
  apply (subst permissionMiddleware_factor)
  by (simp split: prod.splits sum.splits)

text \<open>Outcome of the admin gate for a signed-in caller, by what the store does.\<close>

lemma adminProcedure_answered:
  assumes "getSession ctx (req_headers ctx) = Some s"
    and "map_of (faults db) (length (issued db)) = None"
  shows "adminProcedure nxt ctx db =
     (if rolesOf (user_id (user s)) (tables db) \<inter> set ADMIN_ROLES = {}
      then (Inl (TRPCError FORBIDDEN (Some ''Admin access required'')),
            db\<lparr>issued := issued db @ [UserRolesJoinRoles (user_id (user s))]\<rparr>)
      else nxt \<lparr>getSession = getSession ctx, req_headers = req_headers ctx, session = s,
                ctx_userRoles = map roleName (selectRoleName (user_id (user s)) (tables db))\<rparr>
             (db\<lparr>issued := issued db @ [UserRolesJoinRoles (user_id (user s))]\<rparr>))"
  using assms
  by (simp add: adminProcedure_def protectedProcedure_def adminMiddleware_def execute_ok
      isAdmin_rolesOf Let_def)

lemma adminProcedure_fault:
  assumes "getSession ctx (req_headers ctx) = Some s"
    and "map_of (faults db) (length (issued db)) = Some msg"
  shows "adminProcedure nxt ctx db =
     (Inl (StoreError msg), db\<lparr>issued := issued db @ [UserRolesJoinRoles (user_id (user s))]\<rparr>)"
  using assms
  by (simp add: adminProcedure_def protectedProcedure_def adminMiddleware_def execute_fault)

lemma adminProcedure_anonymous:
  assumes "getSession ctx (req_headers ctx) = None"
  shows "adminProcedure nxt ctx db = (Inl (TRPCError UNAUTHORIZED None), db)"
  using assms by (simp add: adminProcedure_def protectedProcedure_def)

lemma selectUserPermission_empty:
  "selectUserPermission uid perm s = [] \<longleftrightarrow> \<not> grantChain s uid perm"
  using selectUserPermission_chain [of uid perm s] by blast

text \<open>Outcome of the permission middleware, by what the store does.\<close>

lemma permissionMiddleware_outcome:
  assumes "map_of (faults db) (length (issued db)) = None"
  shows "permissionMiddleware perm nxt ctx db =
     (if ''super_admin'' \<in> set (ctx_userRoles ctx) then nxt ctx db
      else if grantChain (tables db) (user_id (user (session ctx))) perm
      then nxt ctx (db\<lparr>issued := issued db @
             [UserRolesJoinPermissions (user_id (user (session ctx))) perm]\<rparr>)
      else (Inl (TRPCError FORBIDDEN (Some (permissionMessage perm))),
            db\<lparr>issued := issued db @
              [UserRolesJoinPermissions (user_id (user (session ctx))) perm]\<rparr>))"
  using assms
  by (simp add: permissionMiddleware_def execute_ok selectUserPermission_empty)

lemma permissionMiddleware_fault:
  assumes "map_of (faults db) (length (issued db)) = Some msg"
    and "''super_admin'' \<notin> set (ctx_userRoles ctx)"
  shows "permissionMiddleware perm nxt ctx db =
     (Inl (StoreError msg),
      db\<lparr>issued := issued db @
        [UserRolesJoinPermissions (user_id (user (session ctx))) perm]\<rparr>)"
  using assms by (simp add: permissionMiddleware_def execute_fault)

text \<open>
  The whole permission-gated procedure for a signed-in caller when the store answers both
  statements: the admin gate first, then the bypass, then the grant chain.
\<close>

lemma createPermissionProcedure_answered:
  assumes "getSession ctx (req_headers ctx) = Some s"
    and "map_of (faults db) (length (issued db)) = None"
    and "map_of (faults db) (Suc (length (issued db))) = None"
  shows "createPermissionProcedure perm nxt ctx db =
     (if rolesOf (user_id (user s)) (tables db) \<inter> set ADMIN_ROLES = {}
      then (Inl (TRPCError FORBIDDEN (Some ''Admin access required'')),
            db\<lparr>issued := issued db @ [UserRolesJoinRoles (user_id (user s))]\<rparr>)
      else if ''super_admin'' \<in> rolesOf (user_id (user s)) (tables db)
      then nxt \<lparr>getSession = getSession ctx, req_headers = req_headers ctx, session = s,
                ctx_userRoles = map roleName (selectRoleName (user_id (user s)) (tables db))\<rparr>
             (db\<lparr>issued := issued db @ [UserRolesJoinRoles (user_id (user s))]\<rparr>)
      else if grantChain (tables db) (user_id (user s)) perm
      then nxt \<lparr>getSession = getSession ctx, req_headers = req_headers ctx, session = s,
                ctx_userRoles = map roleName (selectRoleName (user_id (user s)) (tables db))\<rparr>
             (db\<lparr>issued := issued db @ [UserRolesJoinRoles (user_id (user s)),
                UserRolesJoinPermissions (user_id (user s)) perm]\<rparr>)
      else (Inl (TRPCError FORBIDDEN (Some (permissionMessage perm))),
            db\<lparr>issued := issued db @ [UserRolesJoinRoles (user_id (user s)),
              UserRolesJoinPermissions (user_id (user s)) perm]\<rparr>))"
  unfolding createPermissionProcedure_def
  using assms
  by (simp add: adminProcedure_answered permissionMiddleware_outcome rolesOf_def)

lemmas admin_role_defs = ADMIN_ROLES_def SUPER_ADMIN_def EDITOR_def CONTENT_MANAGER_def

lemma super_admin_is_admin:
  "''super_admin'' \<in> R \<Longrightarrow> R \<inter> set ADMIN_ROLES \<noteq> {}"
  by (auto simp: admin_role_defs)

text \<open>Four rows that join make a grant chain.\<close>

lemma grantChain_rows:
  assumes "ur \<in> set (userRoles t)" "ur_userId ur = uid"
    and "r \<in> set (roles t)" "role_id r = ur_roleId ur"
    and "rp \<in> set (rolePermissions t)" "rp_roleId rp = role_id r"
    and "p \<in> set (permissions t)" "perm_id p = rp_permissionId rp"
  shows "grantChain t uid (perm_name p)"
  unfolding grantChain_def using assms by blast

text \<open>A principal without UserRole rows resolves to no role records.\<close>

lemma selectRoleNameId_none:
  assumes "\<forall>ur \<in> set (userRoles s). ur_userId ur \<noteq> uid"
  shows "selectRoleNameId uid s = []"
  using assms unfolding selectRoleNameId_def
  by (induction "userRoles s") auto

text \<open>Whoever the permission-gated procedure allows has passed the admin gate.\<close>

lemma createPermissionProcedure_allows_admin:
  assumes "allows (createPermissionProcedure perm) ctx db"
  shows "\<exists>s. getSession ctx (req_headers ctx) = Some s \<and>
             rolesOf (user_id (user s)) (tables db) \<inter> set ADMIN_ROLES \<noteq> {}"
proof (cases "getSession ctx (req_headers ctx)")
  case None
  with assms show ?thesis
    by (simp add: allows_def createPermissionProcedure_def adminProcedure_anonymous)
next
  case (Some s)
  show ?thesis
  proof (cases "map_of (faults db) (length (issued db))")
    case None
    with assms Some show ?thesis
      by (auto simp: allows_def createPermissionProcedure_def adminProcedure_answered
          split: if_splits)
  next
    case (Some msg)
    with assms \<open>getSession ctx (req_headers ctx) = Some s\<close> show ?thesis
      by (simp add: allows_def createPermissionProcedure_def adminProcedure_fault)
  qed
qed

text \<open>Which UserRole rows exist does not change what a row derives.\<close>

lemma derives_userRoles [simp]:
  "derives (t\<lparr>userRoles := urs\<rparr>) perm ur = derives t perm ur"
  by (simp add: derives_def)

text \<open>The resolved role names, row by row.\<close>

lemma rolesOf_iff:
  "x \<in> rolesOf uid t \<longleftrightarrow>
     (\<exists>ur \<in> set (userRoles t). \<exists>r \<in> set (roles t).
        role_id r = ur_roleId ur \<and> ur_userId ur = uid \<and> role_name r = x)"
proof -
  have rows: "set (selectRoleName uid t) =
          {\<lparr>roleName = role_name r\<rparr> | ur r.
             ur \<in> set (userRoles t) \<and> r \<in> set (roles t) \<and>
             role_id r = ur_roleId ur \<and> ur_userId ur = uid}"
    unfolding selectRoleName_def by (auto split: if_splits) blast+
  have "rolesOf uid t =
          {role_name r | ur r.
             ur \<in> set (userRoles t) \<and> r \<in> set (roles t) \<and>
             role_id r = ur_roleId ur \<and> ur_userId ur = uid}"
    unfolding rolesOf_def set_map rows by force
  then show ?thesis by auto
qed

text \<open>The bypass or a grant chain holds exactly when some row of the principal derives the permission.\<close>

lemma derived_iff:
  "''super_admin'' \<in> rolesOf uid t \<or> grantChain t uid perm \<longleftrightarrow>
     (\<exists>ur \<in> set (userRoles t). ur_userId ur = uid \<and> derives t perm ur)"
  unfolding rolesOf_iff grantChain_def derives_def
  by blast

text \<open>Without bypass and without chain the call is refused, by one gate or the other.\<close>

lemma createPermissionProcedure_refused:
  assumes "getSession ctx (req_headers ctx) = Some s"
    and "map_of (faults db) (length (issued db)) = None"
    and "map_of (faults db) (Suc (length (issued db))) = None"
    and "\<not> (''super_admin'' \<in> rolesOf (user_id (user s)) (tables db) \<or>
            grantChain (tables db) (user_id (user s)) perm)"
  shows "\<not> allows (createPermissionProcedure perm) ctx db \<and>
         (\<exists>m. fst (createPermissionProcedure perm pass ctx db) =
                 Inl (TRPCError FORBIDDEN (Some m)))"
  unfolding allows_def using assms(4)
  by (simp add: createPermissionProcedure_answered [OF assms(1-3)] pass_def)

text \<open>The guard reads the store; it changes neither the rows nor the fault plan.\<close>

lemma createPermissionProcedure_keeps:
  "tables (snd (createPermissionProcedure perm pass ctx db)) = tables db \<and>
   faults (snd (createPermissionProcedure perm pass ctx db)) = faults db"
  by (auto simp: createPermissionProcedure_def adminProcedure_def protectedProcedure_def
      adminMiddleware_def permissionMiddleware_def execute_def pass_def Let_def
      split: option.splits)

lemmas guard_defs =
  createPermissionProcedure_def adminProcedure_def protectedProcedure_def
  adminMiddleware_def permissionMiddleware_def execute_def pass_def Let_def

text \<open>A rejected role statement ends the permission-gated procedure with the store's error.\<close>

lemma createPermissionProcedure_role_fault:
  assumes "getSession ctx (req_headers ctx) = Some s"
    and "map_of (faults db) (length (issued db)) = Some msg"
  shows "createPermissionProcedure perm nxt ctx db =
        (Inl (StoreError msg),
         db\<lparr>issued := issued db @ [UserRolesJoinRoles (user_id (user s))]\<rparr>)"
  using assms by (simp add: createPermissionProcedure_def adminProcedure_fault)

text \<open>So does a rejected permission statement, for a caller past the admin gate and the bypass.\<close>

lemma createPermissionProcedure_permission_fault:
  assumes "getSession ctx (req_headers ctx) = Some s"
    and "map_of (faults db) (length (issued db)) = None"
    and "rolesOf (user_id (user s)) (tables db) \<inter> set ADMIN_ROLES \<noteq> {}"
    and "''super_admin'' \<notin> rolesOf (user_id (user s)) (tables db)"
    and "map_of (faults db) (Suc (length (issued db))) = Some msg"
  shows "createPermissionProcedure perm nxt ctx db =
        (Inl (StoreError msg),
         db\<lparr>issued := issued db @ [UserRolesJoinRoles (user_id (user s)),
            UserRolesJoinPermissions (user_id (user s)) perm]\<rparr>)"
proof -
  have "''super_admin'' \<notin> roleName ` set (selectRoleName (user_id (user s)) (tables db))"
    using assms(4) by (simp add: rolesOf_def)
  with assms show ?thesis
    by (simp add: createPermissionProcedure_def adminProcedure_answered
        permissionMiddleware_fault)
qed

subsection \<open>Facts about the concrete stores\<close>

lemmas store_defs =
  store_def seedRoles_def seedPermissions_def grant_def assign_def handle_def
  signedIn_def anonymous_def johnDoe_def

lemma signedIn_session: "getSession signedIn (req_headers signedIn) = Some johnDoe"
  by (simp add: signedIn_def)

lemma johnDoe_id: "user_id (user johnDoe) = ''U0001''"
  by (simp add: johnDoe_def)

lemma handle_no_faults: "map_of (faults (handle s [])) n = None"
  by (simp add: handle_def)

lemma handle_tables: "tables (handle s fs) = s"
  by (simp add: handle_def)

lemma handle_issued: "issued (handle s fs) = []"
  by (simp add: handle_def)

lemma rolesOf_superStore: "rolesOf ''U0001'' superStore = {''super_admin''}"
  by (simp add: rolesOf_def selectRoleName_def superStore_def store_defs)

lemma rolesOf_twoRolesStore: "rolesOf ''U0001'' twoRolesStore = {''editor'', ''customer''}"
  by (simp add: rolesOf_def selectRoleName_def twoRolesStore_def store_defs)

lemma rolesOf_twoPlainRolesStore:
  "rolesOf ''U0001'' twoPlainRolesStore = {''customer'', ''support''}"
  by (simp add: rolesOf_def selectRoleName_def twoPlainRolesStore_def store_defs)

lemma rolesOf_customerStore: "rolesOf ''U0001'' customerStore = {''customer''}"
  by (simp add: rolesOf_def selectRoleName_def customerStore_def store_defs)

lemma grantChain_customerStore: "grantChain customerStore ''U0001'' ''orders.view''"
  by (simp add: grantChain_def customerStore_def store_defs)

lemma rolesOf_editorStore: "rolesOf ''U0001'' editorStore = {''editor''}"
  by (simp add: rolesOf_def selectRoleName_def editorStore_def store_defs)

section \<open>The permission decision\<close>

text \<open>
  Claim C1, as amended. For a signed-in principal whose two statements the store answers,
  the procedure built by \<open>createPermissionProcedure\<close> allows the call if and only if the
  principal's resolved role names meet the admin roles and, in addition, they contain
  \<open>super_admin\<close> or the store holds a UserRole, Role, RolePermission, Permission chain
  from the principal to the permission name. The admin gate is part of the decision:
  the procedure is \<open>adminProcedure\<close> extended by the permission middleware.
\<close>

theorem permission_decision:
  assumes "getSession ctx (req_headers ctx) = Some s"
    and "map_of (faults db) (length (issued db)) = None"
    and "map_of (faults db) (Suc (length (issued db))) = None"
  shows "allows (createPermissionProcedure perm) ctx db \<longleftrightarrow>
           rolesOf (user_id (user s)) (tables db) \<inter> set ADMIN_ROLES \<noteq> {} \<and>
           (''super_admin'' \<in> rolesOf (user_id (user s)) (tables db) \<or>
            grantChain (tables db) (user_id (user s)) perm)"
  unfolding allows_def
  by (simp add: createPermissionProcedure_answered [OF assms] pass_def)

text \<open>
  The editor of \<open>editorStore\<close> may create pages and may not view orders.
\<close>

theorem permission_decision_witness:
  "allows (createPermissionProcedure ''cms.pages.create'') signedIn (handle editorStore [])
   \<and> \<not> allows (createPermissionProcedure ''orders.view'') signedIn (handle editorStore [])"
proof -
  note f = handle_no_faults [of editorStore]
  have r: "rolesOf (user_id (user johnDoe)) (tables (handle editorStore [])) = {''editor''}"
    by (simp add: johnDoe_id handle_tables rolesOf_editorStore)
  have g1: "grantChain (tables (handle editorStore [])) (user_id (user johnDoe)) ''cms.pages.create''"
    by (simp add: grantChain_def editorStore_def store_defs)
  have g2: "\<not> grantChain (tables (handle editorStore [])) (user_id (user johnDoe)) ''orders.view''"
    by (simp add: grantChain_def editorStore_def store_defs)
  have a: "{''editor''} \<inter> set ADMIN_ROLES \<noteq> {}"
    by (simp add: admin_role_defs)
  show ?thesis
    using permission_decision [OF signedIn_session f f, of "''cms.pages.create''"]
      permission_decision [OF signedIn_session f f, of "''orders.view''"] r g1 g2 a
    by simp
qed

text \<open>
  Claim C1 as written says the decision is \<open>super_admin\<close> or a grant chain, whatever the
  admin check would say. In \<open>customerStore\<close> John holds \<open>customer\<close>, which is granted
  \<open>orders.view\<close>: the chain exists, and the call is refused with the admin gate's error.
\<close>

theorem permission_decision_standalone_counterexample:
  "\<not> (allows (createPermissionProcedure ''orders.view'') signedIn (handle customerStore []) \<longleftrightarrow>
        ''super_admin'' \<in> rolesOf ''U0001'' customerStore \<or>
        grantChain customerStore ''U0001'' ''orders.view'')
   \<and> fst (createPermissionProcedure ''orders.view'' pass signedIn (handle customerStore []))
       = Inl (TRPCError FORBIDDEN (Some ''Admin access required''))"
proof -
  note f = handle_no_faults [of customerStore]
  have a: "rolesOf ''U0001'' customerStore \<inter> set ADMIN_ROLES = {}"
    by (simp add: rolesOf_customerStore admin_role_defs)
  have out: "fst (createPermissionProcedure ''orders.view'' pass signedIn (handle customerStore []))
       = Inl (TRPCError FORBIDDEN (Some ''Admin access required''))"
    by (simp add: createPermissionProcedure_answered [OF signedIn_session f f]
        johnDoe_id handle_tables a)
  then have "\<not> allows (createPermissionProcedure ''orders.view'') signedIn (handle customerStore [])"
    by (simp add: allows_def)
  with grantChain_customerStore out show ?thesis by simp
qed

text \<open>
  Claim C2. A signed-in principal whose resolved roles contain \<open>super_admin\<close> is allowed
  for every permission name: the resolver runs on the context extended by the resolved
  role names, and the only statement sent is the role statement of the admin gate. No
  permission statement is issued, whatever the RolePermission table holds and even when
  the store would reject the next statement.
\<close>

theorem super_admin_bypass:
  assumes "getSession ctx (req_headers ctx) = Some s"
    and "map_of (faults db) (length (issued db)) = None"
    and "''super_admin'' \<in> rolesOf (user_id (user s)) (tables db)"
  shows "createPermissionProcedure perm nxt ctx db =
           nxt \<lparr>getSession = getSession ctx, req_headers = req_headers ctx, session = s,
                ctx_userRoles = map roleName (selectRoleName (user_id (user s)) (tables db))\<rparr>
               (db\<lparr>issued := issued db @ [UserRolesJoinRoles (user_id (user s))]\<rparr>)
         \<and> allows (createPermissionProcedure perm) ctx db
         \<and> issued (snd (createPermissionProcedure perm pass ctx db)) =
             issued db @ [UserRolesJoinRoles (user_id (user s))]"
proof -
  have admin: "rolesOf (user_id (user s)) (tables db) \<inter> set ADMIN_ROLES \<noteq> {}"
    using assms(3) by (rule super_admin_is_admin)
  have names: "''super_admin'' \<in> roleName ` set (selectRoleName (user_id (user s)) (tables db))"
    using assms(3) by (simp add: rolesOf_def)
  have run: "createPermissionProcedure perm k ctx db =
           k \<lparr>getSession = getSession ctx, req_headers = req_headers ctx, session = s,
                ctx_userRoles = map roleName (selectRoleName (user_id (user s)) (tables db))\<rparr>
               (db\<lparr>issued := issued db @ [UserRolesJoinRoles (user_id (user s))]\<rparr>)" for k
    unfolding createPermissionProcedure_def
    using admin names
    by (simp add: adminProcedure_answered [OF assms(1,2)] permissionMiddleware_def)
  show ?thesis
    by (simp add: run allows_def pass_def)
qed

text \<open>
  In \<open>superStore\<close> no RolePermission row exists and the store would reject a second
  statement; John, a \<open>super_admin\<close>, is allowed and one statement is sent.
\<close>

theorem super_admin_bypass_witness:
  "rolePermissions superStore = []
   \<and> allows (createPermissionProcedure ''orders.update'') signedIn
        (handle superStore [(1, ''store down'')])
   \<and> issued (snd (createPermissionProcedure ''orders.update'' pass signedIn
         (handle superStore [(1, ''store down'')]))) = [UserRolesJoinRoles ''U0001'']"
proof -
  have f: "map_of (faults (handle superStore [(1, ''store down'')]))
             (length (issued (handle superStore [(1, ''store down'')]))) = None"
    by (simp add: handle_def)
  have r: "''super_admin'' \<in> rolesOf (user_id (user johnDoe))
             (tables (handle superStore [(1, ''store down'')]))"
    by (simp add: johnDoe_id handle_tables rolesOf_superStore)
  have e: "rolePermissions superStore = []"
    by (simp add: superStore_def store_def)
  show ?thesis
    using super_admin_bypass [OF signedIn_session f r, of "''orders.update''" pass] e
    by (simp add: handle_issued johnDoe_id pass_def)
qed

section \<open>The admin decision\<close>

text \<open>
  Claim C3. For a signed-in principal whose role statement the store answers,
  \<open>adminProcedure\<close> allows the call if and only if the resolved role names meet
  \<open>{super_admin, editor, content_manager}\<close>; otherwise it throws \<open>FORBIDDEN\<close> with the
  message \<open>Admin access required\<close>.
\<close>

theorem admin_decision:
  assumes "getSession ctx (req_headers ctx) = Some s"
    and "map_of (faults db) (length (issued db)) = None"
  shows "(allows adminProcedure ctx db \<longleftrightarrow>
            rolesOf (user_id (user s)) (tables db) \<inter>
              {''super_admin'', ''editor'', ''content_manager''} \<noteq> {})
         \<and> (rolesOf (user_id (user s)) (tables db) \<inter>
              {''super_admin'', ''editor'', ''content_manager''} = {} \<longrightarrow>
            adminProcedure nxt ctx db =
              (Inl (TRPCError FORBIDDEN (Some ''Admin access required'')),
               db\<lparr>issued := issued db @ [UserRolesJoinRoles (user_id (user s))]\<rparr>))"
proof -
  have set_eq: "set ADMIN_ROLES = {''super_admin'', ''editor'', ''content_manager''}"
    by (simp add: admin_role_defs)
  show ?thesis
    unfolding allows_def set_eq [symmetric]
    by (simp add: adminProcedure_answered [OF assms] pass_def)
qed

text \<open>A holder of \<open>customer\<close> alone is refused; a holder of \<open>editor\<close> is allowed.\<close>

theorem admin_decision_witness:
  "\<not> allows adminProcedure signedIn (handle customerStore [])
   \<and> adminProcedure pass signedIn (handle customerStore []) =
       (Inl (TRPCError FORBIDDEN (Some ''Admin access required'')),
        (handle customerStore [])\<lparr>issued := [UserRolesJoinRoles ''U0001'']\<rparr>)
   \<and> allows adminProcedure signedIn (handle editorStore [])"
  using admin_decision [OF signedIn_session handle_no_faults [of customerStore], of pass]
    admin_decision [OF signedIn_session handle_no_faults [of editorStore], of pass]
  by (simp add: johnDoe_id handle_tables handle_issued rolesOf_customerStore
      rolesOf_editorStore)

section \<open>Callers without a session\<close>

text \<open>
  Claim C4. When session resolution returns no session, every procedure built on
  \<open>protectedProcedure\<close> ends with \<open>UNAUTHORIZED\<close> and returns the database handle as it
  received it: no statement was sent, and the result is the same for every resolver, so
  the wrapped action did not run.
\<close>

theorem unauthenticated_short_circuit:
  assumes "getSession ctx (req_headers ctx) = None"
  shows "protectedProcedure nxtP ctx db = (Inl (TRPCError UNAUTHORIZED None), db)
       \<and> adminProcedure nxtA ctx db = (Inl (TRPCError UNAUTHORIZED None), db)
       \<and> createPermissionProcedure perm nxtC ctx db = (Inl (TRPCError UNAUTHORIZED None), db)
       \<and> checkAccess ctx db = (Inl (TRPCError UNAUTHORIZED None), db)
       \<and> listRoles ctx db = (Inl (TRPCError UNAUTHORIZED None), db)"
  using assms
  by (simp add: protectedProcedure_def adminProcedure_def createPermissionProcedure_def
      checkAccess_def listRoles_def)

text \<open>
  An anonymous call with a resolver that would leave a trace, on a store that would
  reject the first statement: neither is reached.
\<close>

theorem unauthenticated_short_circuit_witness:
  "createPermissionProcedure ''orders.view'' probe anonymous
      (handle superStore [(0, ''store down'')])
     = (Inl (TRPCError UNAUTHORIZED None), handle superStore [(0, ''store down'')])
   \<and> issued (snd (adminProcedure probe anonymous (handle superStore []))) = []"
proof -
  have n: "getSession anonymous (req_headers anonymous) = None"
    by (simp add: anonymous_def)
  from unauthenticated_short_circuit [OF n, where perm = "''orders.view''" and nxtC = probe
      and db = "handle superStore [(0, ''store down'')]"]
  have a: "createPermissionProcedure ''orders.view'' probe anonymous
             (handle superStore [(0, ''store down'')])
           = (Inl (TRPCError UNAUTHORIZED None), handle superStore [(0, ''store down'')])"
    by blast
  from unauthenticated_short_circuit [OF n, where nxtA = probe and db = "handle superStore []"]
  have b: "adminProcedure probe anonymous (handle superStore [])
           = (Inl (TRPCError UNAUTHORIZED None), handle superStore [])"
    by blast
  show ?thesis
    by (simp add: a b handle_issued)
qed

section \<open>The cms router\<close>

text \<open>
  Claim C6. \<open>listRoles\<close> is built on \<open>protectedProcedure\<close> alone: for every signed-in
  principal, whatever roles they hold, and every store that answers, it returns every row
  of the roles table projected to id, name and description.
\<close>

theorem listRoles_authenticated:
  assumes "getSession ctx (req_headers ctx) = Some s"
    and "map_of (faults db) (length (issued db)) = None"
  shows "listRoles ctx db =
           (Inr (map (\<lambda>r. \<lparr>rv_id = role_id r, rv_name = role_name r,
                            rv_description = role_description r\<rparr>) (roles (tables db))),
            db\<lparr>issued := issued db @ [FromRoles]\<rparr>)"
  using assms
  by (simp add: listRoles_def protectedProcedure_def execute_ok selectRoles_def)

text \<open>John holds no role in \<open>noAssignmentStore\<close> and still reads all five roles.\<close>

theorem listRoles_authenticated_witness:
  "rolesOf ''U0001'' noAssignmentStore = {}
   \<and> fst (listRoles signedIn (handle noAssignmentStore [])) =
       Inr [\<lparr>rv_id = ''role_super'', rv_name = ''super_admin'',
              rv_description = Some ''Full system access''\<rparr>,
            \<lparr>rv_id = ''role_editor'', rv_name = ''editor'',
              rv_description = Some ''Content and product management''\<rparr>,
            \<lparr>rv_id = ''role_content'', rv_name = ''content_manager'',
              rv_description = Some ''Limited content editing''\<rparr>,
            \<lparr>rv_id = ''role_customer'', rv_name = ''customer'',
              rv_description = Some ''Regular user account''\<rparr>,
            \<lparr>rv_id = ''role_support'', rv_name = ''support'', rv_description = None\<rparr>]"
proof -
  have r: "rolesOf ''U0001'' noAssignmentStore = {}"
    by (simp add: rolesOf_def selectRoleName_def noAssignmentStore_def store_defs)
  have t: "roles noAssignmentStore = seedRoles"
    by (simp add: noAssignmentStore_def store_def)
  show ?thesis
    using listRoles_authenticated [OF signedIn_session handle_no_faults [of noAssignmentStore]] r
    by (simp add: handle_tables t seedRoles_def)
qed

text \<open>
  Claim C10. For a signed-in principal with no UserRole row in a store that answers,
  \<open>checkAccess\<close> returns \<open>isAdmin = false\<close> and an empty list of roles.
\<close>

theorem checkAccess_no_roles:
  assumes "getSession ctx (req_headers ctx) = Some s"
    and "map_of (faults db) (length (issued db)) = None"
    and "\<forall>ur \<in> set (userRoles (tables db)). ur_userId ur \<noteq> user_id (user s)"
  shows "checkAccess ctx db =
           (Inr \<lparr>isAdmin = False, access_roles = []\<rparr>,
            db\<lparr>issued := issued db @ [UserRolesJoinRoles (user_id (user s))]\<rparr>)"
  using assms(1,2)
  by (simp add: checkAccess_def protectedProcedure_def execute_ok
      selectRoleNameId_none [OF assms(3)])

theorem checkAccess_no_roles_witness:
  "fst (checkAccess signedIn (handle noAssignmentStore [])) =
     Inr \<lparr>isAdmin = False, access_roles = []\<rparr>"
proof -
  have n: "\<forall>ur \<in> set (userRoles (tables (handle noAssignmentStore []))).
             ur_userId ur \<noteq> user_id (user johnDoe)"
    by (simp add: noAssignmentStore_def store_defs)
  show ?thesis
    using checkAccess_no_roles [OF signedIn_session handle_no_faults [of noAssignmentStore] n]
    by simp
qed

section \<open>Layering of the permission check on the admin gate\<close>

text \<open>
  Claim C7. Whenever the procedure built by \<open>createPermissionProcedure\<close> lets the wrapped
  action run, the caller is signed in and their resolved roles meet
  \<open>{super_admin, editor, content_manager}\<close>. A signed-in principal whose roles miss that
  set is refused with \<open>Admin access required\<close> after the role statement alone, whatever
  the RolePermission table grants their roles.
\<close>

theorem permission_requires_admin:
  "(allows (createPermissionProcedure perm) ctx db \<longrightarrow>
      (\<exists>s. getSession ctx (req_headers ctx) = Some s \<and>
           rolesOf (user_id (user s)) (tables db) \<inter>
             {''super_admin'', ''editor'', ''content_manager''} \<noteq> {}))
   \<and> (getSession ctx (req_headers ctx) = Some s \<and>
        map_of (faults db) (length (issued db)) = None \<and>
        rolesOf (user_id (user s)) (tables db) \<inter>
          {''super_admin'', ''editor'', ''content_manager''} = {} \<longrightarrow>
      createPermissionProcedure perm nxt ctx db =
        (Inl (TRPCError FORBIDDEN (Some ''Admin access required'')),
         db\<lparr>issued := issued db @ [UserRolesJoinRoles (user_id (user s))]\<rparr>))"
proof -
  have set_eq: "set ADMIN_ROLES = {''super_admin'', ''editor'', ''content_manager''}"
    by (simp add: admin_role_defs)
  show ?thesis
    unfolding set_eq [symmetric]
    using createPermissionProcedure_allows_admin [of perm ctx db]
    by (auto simp: createPermissionProcedure_def adminProcedure_answered)
qed

text \<open>
  John holds \<open>customer\<close> only, and \<open>customer\<close> is granted \<open>orders.view\<close>: the call
  for \<open>orders.view\<close> is refused at the admin gate.
\<close>

theorem permission_requires_admin_witness:
  "grantChain customerStore ''U0001'' ''orders.view''
   \<and> createPermissionProcedure ''orders.view'' probe signedIn (handle customerStore []) =
       (Inl (TRPCError FORBIDDEN (Some ''Admin access required'')),
        (handle customerStore [])\<lparr>issued := [UserRolesJoinRoles ''U0001'']\<rparr>)
   \<and> \<not> allows (createPermissionProcedure ''orders.view'') signedIn (handle customerStore [])"
  using permission_requires_admin [of "''orders.view''" signedIn "handle customerStore []"
      johnDoe probe] grantChain_customerStore
  by (simp add: signedIn_session handle_no_faults johnDoe_id handle_tables handle_issued
      rolesOf_customerStore)

section \<open>Union over the roles of a principal\<close>

text \<open>
  Claim C5, as amended. A signed-in principal holds two roles; the first is granted
  permission A, the second permission B, each through its own RolePermission row. If at
  least one of the principal's resolved roles is an admin role, the permission-gated
  procedure allows both A and B (the store answering): one matching role suffices for
  each permission.
\<close>

theorem union_of_role_permissions:
  assumes "getSession ctx (req_headers ctx) = Some s"
    and "map_of (faults db) (length (issued db)) = None"
    and "map_of (faults db) (Suc (length (issued db))) = None"
    and "ur1 \<in> set (userRoles (tables db))" and "ur_userId ur1 = user_id (user s)"
    and "r1 \<in> set (roles (tables db))" and "role_id r1 = ur_roleId ur1"
    and "rp1 \<in> set (rolePermissions (tables db))" and "rp_roleId rp1 = role_id r1"
    and "pA \<in> set (permissions (tables db))" and "perm_id pA = rp_permissionId rp1"
    and "ur2 \<in> set (userRoles (tables db))" and "ur_userId ur2 = user_id (user s)"
    and "r2 \<in> set (roles (tables db))" and "role_id r2 = ur_roleId ur2"
    and "rp2 \<in> set (rolePermissions (tables db))" and "rp_roleId rp2 = role_id r2"
    and "pB \<in> set (permissions (tables db))" and "perm_id pB = rp_permissionId rp2"
    and "rolesOf (user_id (user s)) (tables db) \<inter> set ADMIN_ROLES \<noteq> {}"
  shows "allows (createPermissionProcedure (perm_name pA)) ctx db
       \<and> allows (createPermissionProcedure (perm_name pB)) ctx db"
proof -
  have a: "grantChain (tables db) (user_id (user s)) (perm_name pA)"
    using assms(4-11) by (rule grantChain_rows)
  have b: "grantChain (tables db) (user_id (user s)) (perm_name pB)"
    using assms(12-19) by (rule grantChain_rows)
  show ?thesis
    unfolding allows_def
    using a b assms(20)
    by (simp add: createPermissionProcedure_answered [OF assms(1-3)] pass_def)
qed

text \<open>
  John holds \<open>editor\<close>, granted \<open>cms.pages.create\<close> only, and \<open>customer\<close>, granted
  \<open>orders.view\<close> only; both permissions are allowed.
\<close>

theorem union_of_role_permissions_witness:
  "allows (createPermissionProcedure ''cms.pages.create'') signedIn (handle twoRolesStore [])
   \<and> allows (createPermissionProcedure ''orders.view'') signedIn (handle twoRolesStore [])"
proof -
  let ?db = "handle twoRolesStore []"
  let ?r1 = "\<lparr>role_id = ''role_editor'', role_name = ''editor'',
        role_description = Some ''Content and product management'',
        role_createdAt = 1, role_updatedAt = 1\<rparr>"
  let ?r2 = "\<lparr>role_id = ''role_customer'', role_name = ''customer'',
        role_description = Some ''Regular user account'',
        role_createdAt = 1, role_updatedAt = 2\<rparr>"
  let ?pA = "\<lparr>perm_id = ''p_create'', perm_name = ''cms.pages.create'', perm_resource = ''cms.pages'',
        perm_action = ''create'', perm_description = None, perm_createdAt = 1\<rparr>"
  let ?pB = "\<lparr>perm_id = ''p_view'', perm_name = ''orders.view'', perm_resource = ''orders'',
        perm_action = ''view'', perm_description = None, perm_createdAt = 1\<rparr>"
  have adm: "rolesOf (user_id (user johnDoe)) (tables ?db) \<inter> set ADMIN_ROLES \<noteq> {}"
    by (simp add: johnDoe_id handle_tables rolesOf_twoRolesStore admin_role_defs)
  have t: "tables ?db = twoRolesStore"
    by (rule handle_tables)
  have "allows (createPermissionProcedure (perm_name ?pA)) signedIn ?db
       \<and> allows (createPermissionProcedure (perm_name ?pB)) signedIn ?db"
  proof (rule union_of_role_permissions [OF signedIn_session handle_no_faults handle_no_faults,
        where ?ur1.0 = "assign ''U0001'' ''role_editor''" and ?r1.0 = ?r1
          and ?rp1.0 = "grant ''role_editor'' ''p_create''"
          and ?ur2.0 = "assign ''U0001'' ''role_customer''" and ?r2.0 = ?r2
          and ?rp2.0 = "grant ''role_customer'' ''p_view''"])
    show "rolesOf (user_id (user johnDoe)) (tables ?db) \<inter> set ADMIN_ROLES \<noteq> {}"
      by (rule adm)
  qed (simp_all add: t twoRolesStore_def store_defs)
  then show ?thesis by simp
qed

text \<open>
  Claim C5 as written holds for every principal with two such roles. In
  \<open>twoPlainRolesStore\<close> John holds \<open>customer\<close>, granted \<open>orders.view\<close> only, and
  \<open>support\<close>, granted \<open>orders.update\<close> only; neither role is an admin role, and both
  calls are refused.
\<close>

theorem union_of_role_permissions_counterexample:
  "rolePermissions twoPlainRolesStore =
      [grant ''role_customer'' ''p_view'', grant ''role_support'' ''p_update'']
   \<and> rolesOf ''U0001'' twoPlainRolesStore = {''customer'', ''support''}
   \<and> grantChain twoPlainRolesStore ''U0001'' ''orders.view''
   \<and> grantChain twoPlainRolesStore ''U0001'' ''orders.update''
   \<and> \<not> allows (createPermissionProcedure ''orders.view'') signedIn (handle twoPlainRolesStore [])
   \<and> \<not> allows (createPermissionProcedure ''orders.update'') signedIn (handle twoPlainRolesStore [])"
proof -
  note f = handle_no_faults [of twoPlainRolesStore]
  have a: "rolesOf ''U0001'' twoPlainRolesStore \<inter> set ADMIN_ROLES = {}"
    by (simp add: rolesOf_twoPlainRolesStore admin_role_defs)
  have g1: "grantChain twoPlainRolesStore ''U0001'' ''orders.view''"
    by (simp add: grantChain_def twoPlainRolesStore_def store_defs)
  have g2: "grantChain twoPlainRolesStore ''U0001'' ''orders.update''"
    by (simp add: grantChain_def twoPlainRolesStore_def store_defs)
  have rp: "rolePermissions twoPlainRolesStore =
      [grant ''role_customer'' ''p_view'', grant ''role_support'' ''p_update'']"
    by (simp add: twoPlainRolesStore_def store_def)
  have d: "\<not> allows (createPermissionProcedure p) signedIn (handle twoPlainRolesStore [])" for p
    unfolding allows_def
    by (simp add: createPermissionProcedure_answered [OF signedIn_session f f]
        johnDoe_id handle_tables a)
  from rp rolesOf_twoPlainRolesStore g1 g2 d show ?thesis by simp
qed

section \<open>Revocation\<close>

text \<open>
  Claim C8, as amended. A signed-in principal calls the permission-gated procedure for a
  permission in a store that answers; the call leaves the handle \<open>db1\<close>. Then the only
  UserRole row of the principal that derives the permission (through \<open>super_admin\<close> or
  through a grant chain) is removed, giving \<open>db2\<close>. The next call on \<open>db2\<close> is refused
  with \<open>FORBIDDEN\<close>: nothing of the first call is retained. The first call, in the state
  containing the row, was allowed exactly when the principal's resolved roles met the
  admin roles there.
\<close>

theorem revocation_takes_effect:
  assumes "getSession ctx (req_headers ctx) = Some s"
    and "faults db = []"
    and "ur \<in> set (userRoles (tables db))"
    and "ur_userId ur = user_id (user s)"
    and "derives (tables db) perm ur"
    and "\<forall>ur' \<in> set (userRoles (tables db)).
           ur_userId ur' = user_id (user s) \<and> derives (tables db) perm ur' \<longrightarrow> ur' = ur"
    and "db1 = snd (createPermissionProcedure perm pass ctx db)"
    and "db2 = db1\<lparr>tables := (tables db1)\<lparr>userRoles := removeAll ur (userRoles (tables db1))\<rparr>\<rparr>"
  shows "(allows (createPermissionProcedure perm) ctx db \<longleftrightarrow>
            rolesOf (user_id (user s)) (tables db) \<inter> set ADMIN_ROLES \<noteq> {})
       \<and> \<not> allows (createPermissionProcedure perm) ctx db2
       \<and> (\<exists>m. fst (createPermissionProcedure perm pass ctx db2) =
                 Inl (TRPCError FORBIDDEN (Some m)))"
proof -
  let ?uid = "user_id (user s)"
  have f: "map_of (faults db) n = None" for n
    using assms(2) by simp
  have "''super_admin'' \<in> rolesOf ?uid (tables db) \<or> grantChain (tables db) ?uid perm"
    unfolding derived_iff using assms(3-5) by blast
  then have before: "allows (createPermissionProcedure perm) ctx db \<longleftrightarrow>
            rolesOf (user_id (user s)) (tables db) \<inter> set ADMIN_ROLES \<noteq> {}"
    unfolding allows_def
    by (auto simp: createPermissionProcedure_answered [OF assms(1) f f] pass_def)
  have t1: "tables db1 = tables db" and f1: "faults db1 = []"
    using createPermissionProcedure_keeps [of perm ctx db] assms(2,7) by simp_all
  have t2: "tables db2 = (tables db)\<lparr>userRoles := removeAll ur (userRoles (tables db))\<rparr>"
    and f2: "map_of (faults db2) n = None" for n
    using assms(8) t1 f1 by simp_all
  have none: "\<not> (''super_admin'' \<in> rolesOf ?uid (tables db2) \<or> grantChain (tables db2) ?uid perm)"
    unfolding derived_iff t2 using assms(6) by auto
  from before createPermissionProcedure_refused [OF assms(1) f2 f2 none]
  show ?thesis by simp
qed

text \<open>
  John is an editor granted \<open>cms.pages.create\<close>; his call is allowed, his only UserRole
  row is removed, and the next call on the handle left by the first one is refused.
\<close>

theorem revocation_takes_effect_witness:
  "allows (createPermissionProcedure ''cms.pages.create'') signedIn (handle editorStore [])
   \<and> \<not> allows (createPermissionProcedure ''cms.pages.create'') signedIn
        ((snd (createPermissionProcedure ''cms.pages.create'' pass signedIn (handle editorStore [])))
           \<lparr>tables := store [grant ''role_editor'' ''p_create''] []\<rparr>)"
proof -
  let ?db = "handle editorStore []"
  let ?ur = "assign ''U0001'' ''role_editor''"
  let ?db1 = "snd (createPermissionProcedure ''cms.pages.create'' pass signedIn ?db)"
  have t: "tables ?db = editorStore"
    by (rule handle_tables)
  have t1: "tables ?db1 = editorStore"
    using createPermissionProcedure_keeps [of "''cms.pages.create''" signedIn ?db]
    by (simp add: t)
  have rem: "(tables ?db1)\<lparr>userRoles := removeAll ?ur (userRoles (tables ?db1))\<rparr>
               = store [grant ''role_editor'' ''p_create''] []"
    unfolding t1 by (simp add: editorStore_def store_def)
  have h2: "faults ?db = []"
    by (simp add: handle_def)
  have h3: "?ur \<in> set (userRoles (tables ?db))"
    by (simp add: handle_tables editorStore_def store_def)
  have h4: "ur_userId ?ur = user_id (user johnDoe)"
    by (simp add: assign_def johnDoe_def)
  have h5: "derives (tables ?db) ''cms.pages.create'' ?ur"
    by (simp add: handle_tables derives_def editorStore_def store_defs)
  have h6: "\<forall>ur' \<in> set (userRoles (tables ?db)).
           ur_userId ur' = user_id (user johnDoe) \<and>
           derives (tables ?db) ''cms.pages.create'' ur' \<longrightarrow> ur' = ?ur"
    by (simp add: handle_tables editorStore_def store_def)
  have h7: "rolesOf (user_id (user johnDoe)) (tables ?db) \<inter> set ADMIN_ROLES \<noteq> {}"
    by (simp add: handle_tables johnDoe_id rolesOf_editorStore admin_role_defs)
  show ?thesis
    using revocation_takes_effect [OF signedIn_session h2 h3 h4 h5 h6 refl refl] h7
    by (simp add: rem)
qed

text \<open>
  Claim C8 as written says the call was allowed in the state containing the row. In
  \<open>customerStore\<close> the single UserRole row of John derives \<open>orders.view\<close> through
  \<open>customer\<close>, and the call is refused with the row present as it is without it.
\<close>

theorem revocation_takes_effect_counterexample:
  "assign ''U0001'' ''role_customer'' \<in> set (userRoles customerStore)
   \<and> derives customerStore ''orders.view'' (assign ''U0001'' ''role_customer'')
   \<and> userRoles customerStore = [assign ''U0001'' ''role_customer'']
   \<and> \<not> allows (createPermissionProcedure ''orders.view'') signedIn (handle customerStore [])
   \<and> \<not> allows (createPermissionProcedure ''orders.view'') signedIn
        (handle (customerStore\<lparr>userRoles := []\<rparr>) [])"
proof -
  have a: "rolesOf ''U0001'' customerStore \<inter> set ADMIN_ROLES = {}"
    by (simp add: rolesOf_customerStore admin_role_defs)
  have b: "rolesOf ''U0001'' (customerStore\<lparr>userRoles := []\<rparr>) \<inter> set ADMIN_ROLES = {}"
    by (simp add: rolesOf_def selectRoleName_def)
  have d: "\<not> allows (createPermissionProcedure ''orders.view'') signedIn (handle customerStore [])"
    unfolding allows_def
    by (simp add: createPermissionProcedure_answered
          [OF signedIn_session handle_no_faults handle_no_faults]
        johnDoe_id handle_tables a)
  have e: "\<not> allows (createPermissionProcedure ''orders.view'') signedIn
        (handle (customerStore\<lparr>userRoles := []\<rparr>) [])"
    unfolding allows_def
    by (simp add: createPermissionProcedure_answered
          [OF signedIn_session handle_no_faults handle_no_faults]
        johnDoe_id handle_tables b)
  have u: "userRoles customerStore = [assign ''U0001'' ''role_customer'']"
    by (simp add: customerStore_def store_def)
  have v: "derives customerStore ''orders.view'' (assign ''U0001'' ''role_customer'')"
    by (simp add: derives_def customerStore_def store_defs)
  from u v d e show ?thesis by simp
qed

section \<open>Failures at the guard\<close>

text \<open>
  Claim C9. What the caller of the permission-gated guard sees when it fails is one of:
  \<open>UNAUTHORIZED\<close>, and then there is no session; \<open>FORBIDDEN\<close> with the message
  \<open>Admin access required\<close>; \<open>FORBIDDEN\<close> with the message made of \<open>Permission\<close>, the
  required permission's name between single quotes, and \<open>required\<close>; or
  \<open>INTERNAL_SERVER_ERROR\<close> carrying the message of a statement the store rejected. The
  admin guard fails with the first, the second or the last, and the session guard fails
  exactly when there is no session, with \<open>UNAUTHORIZED\<close>. A rejected role statement or
  permission statement ends the call after that statement was sent once: the helpers
  hand on the store's own error, no later statement follows, and the caller sees
  \<open>INTERNAL_SERVER_ERROR\<close>, never \<open>FORBIDDEN\<close>; a \<open>FORBIDDEN\<close> result means every
  statement sent was answered. With any resolver the guard returns its own failure or
  exactly what the resolver returns.
\<close>

theorem guard_failures:
  "(fst (atBoundary (createPermissionProcedure perm pass) ctx db) = Inl e \<longrightarrow>
      e = TRPCError UNAUTHORIZED None \<and> getSession ctx (req_headers ctx) = None \<or>
      e = TRPCError FORBIDDEN (Some ''Admin access required'') \<or>
      e = TRPCError FORBIDDEN
            (Some (''Permission '' @ [CHR 0x27] @ perm @ [CHR 0x27] @ '' required'')) \<or>
      (\<exists>k msg. e = TRPCError INTERNAL_SERVER_ERROR (Some msg) \<and>
         map_of (faults db) k = Some msg \<and>
         (k = length (issued db) \<or> k = Suc (length (issued db)))))
   \<and> (fst (atBoundary (adminProcedure pass) ctx db) = Inl e \<longrightarrow>
      e = TRPCError UNAUTHORIZED None \<and> getSession ctx (req_headers ctx) = None \<or>
      e = TRPCError FORBIDDEN (Some ''Admin access required'') \<or>
      (\<exists>msg. e = TRPCError INTERNAL_SERVER_ERROR (Some msg) \<and>
         map_of (faults db) (length (issued db)) = Some msg))
   \<and> (fst (atBoundary (protectedProcedure pass) ctx db) = Inl e \<longleftrightarrow>
        getSession ctx (req_headers ctx) = None \<and> e = TRPCError UNAUTHORIZED None)
   \<and> (getSession ctx (req_headers ctx) = Some s \<and>
        map_of (faults db) (length (issued db)) = Some msg1 \<longrightarrow>
      createPermissionProcedure perm nxt ctx db =
        (Inl (StoreError msg1),
         db\<lparr>issued := issued db @ [UserRolesJoinRoles (user_id (user s))]\<rparr>) \<and>
      atBoundary (createPermissionProcedure perm nxt) ctx db =
        (Inl (TRPCError INTERNAL_SERVER_ERROR (Some msg1)),
         db\<lparr>issued := issued db @ [UserRolesJoinRoles (user_id (user s))]\<rparr>))
   \<and> (getSession ctx (req_headers ctx) = Some s \<and>
        map_of (faults db) (length (issued db)) = None \<and>
        rolesOf (user_id (user s)) (tables db) \<inter> set ADMIN_ROLES \<noteq> {} \<and>
        ''super_admin'' \<notin> rolesOf (user_id (user s)) (tables db) \<and>
        map_of (faults db) (Suc (length (issued db))) = Some msg2 \<longrightarrow>
      createPermissionProcedure perm nxt ctx db =
        (Inl (StoreError msg2),
         db\<lparr>issued := issued db @ [UserRolesJoinRoles (user_id (user s)),
            UserRolesJoinPermissions (user_id (user s)) perm]\<rparr>) \<and>
      atBoundary (createPermissionProcedure perm nxt) ctx db =
        (Inl (TRPCError INTERNAL_SERVER_ERROR (Some msg2)),
         db\<lparr>issued := issued db @ [UserRolesJoinRoles (user_id (user s)),
            UserRolesJoinPermissions (user_id (user s)) perm]\<rparr>))
   \<and> (fst (atBoundary (createPermissionProcedure perm pass) ctx db)
          = Inl (TRPCError FORBIDDEN m) \<longrightarrow>
      (\<forall>k. length (issued db) \<le> k \<and>
           k < length (issued (snd (atBoundary (createPermissionProcedure perm pass) ctx db))) \<longrightarrow>
           map_of (faults db) k = None))
   \<and> createPermissionProcedure perm nxt ctx db =
       (case createPermissionProcedure perm pass ctx db of
          (Inl err, db') \<Rightarrow> (Inl err, db')
        | (Inr c, db') \<Rightarrow> nxt c db')"
proof (intro conjI impI)
  assume "fst (atBoundary (createPermissionProcedure perm pass) ctx db) = Inl e"
  then show "e = TRPCError UNAUTHORIZED None \<and> getSession ctx (req_headers ctx) = None \<or>
      e = TRPCError FORBIDDEN (Some ''Admin access required'') \<or>
      e = TRPCError FORBIDDEN
            (Some (''Permission '' @ [CHR 0x27] @ perm @ [CHR 0x27] @ '' required'')) \<or>
      (\<exists>k msg. e = TRPCError INTERNAL_SERVER_ERROR (Some msg) \<and>
         map_of (faults db) k = Some msg \<and>
         (k = length (issued db) \<or> k = Suc (length (issued db))))"
    by (auto simp: atBoundary_def guard_defs permissionMessage_def
        split: option.splits if_splits)
next
  assume "fst (atBoundary (adminProcedure pass) ctx db) = Inl e"
  then show "e = TRPCError UNAUTHORIZED None \<and> getSession ctx (req_headers ctx) = None \<or>
      e = TRPCError FORBIDDEN (Some ''Admin access required'') \<or>
      (\<exists>msg. e = TRPCError INTERNAL_SERVER_ERROR (Some msg) \<and>
         map_of (faults db) (length (issued db)) = Some msg)"
    by (auto simp: atBoundary_def guard_defs split: option.splits if_splits)
next
  show "fst (atBoundary (protectedProcedure pass) ctx db) = Inl e \<longleftrightarrow>
        getSession ctx (req_headers ctx) = None \<and> e = TRPCError UNAUTHORIZED None"
    by (auto simp: atBoundary_def guard_defs split: option.splits)
next
  assume "getSession ctx (req_headers ctx) = Some s \<and>
        map_of (faults db) (length (issued db)) = Some msg1"
  then show "createPermissionProcedure perm nxt ctx db =
        (Inl (StoreError msg1),
         db\<lparr>issued := issued db @ [UserRolesJoinRoles (user_id (user s))]\<rparr>)"
    by (simp add: createPermissionProcedure_role_fault)
next
  assume "getSession ctx (req_headers ctx) = Some s \<and>
        map_of (faults db) (length (issued db)) = Some msg1"
  then show "atBoundary (createPermissionProcedure perm nxt) ctx db =
        (Inl (TRPCError INTERNAL_SERVER_ERROR (Some msg1)),
         db\<lparr>issued := issued db @ [UserRolesJoinRoles (user_id (user s))]\<rparr>)"
    by (simp add: atBoundary_def createPermissionProcedure_role_fault)
next
  assume "getSession ctx (req_headers ctx) = Some s \<and>
        map_of (faults db) (length (issued db)) = None \<and>
        rolesOf (user_id (user s)) (tables db) \<inter> set ADMIN_ROLES \<noteq> {} \<and>
        ''super_admin'' \<notin> rolesOf (user_id (user s)) (tables db) \<and>
        map_of (faults db) (Suc (length (issued db))) = Some msg2"
  then show "createPermissionProcedure perm nxt ctx db =
        (Inl (StoreError msg2),
         db\<lparr>issued := issued db @ [UserRolesJoinRoles (user_id (user s)),
            UserRolesJoinPermissions (user_id (user s)) perm]\<rparr>)"
    by (simp add: createPermissionProcedure_permission_fault)
next
  assume "getSession ctx (req_headers ctx) = Some s \<and>
        map_of (faults db) (length (issued db)) = None \<and>
        rolesOf (user_id (user s)) (tables db) \<inter> set ADMIN_ROLES \<noteq> {} \<and>
        ''super_admin'' \<notin> rolesOf (user_id (user s)) (tables db) \<and>
        map_of (faults db) (Suc (length (issued db))) = Some msg2"
  then show "atBoundary (createPermissionProcedure perm nxt) ctx db =
        (Inl (TRPCError INTERNAL_SERVER_ERROR (Some msg2)),
         db\<lparr>issued := issued db @ [UserRolesJoinRoles (user_id (user s)),
            UserRolesJoinPermissions (user_id (user s)) perm]\<rparr>)"
    by (simp add: atBoundary_def createPermissionProcedure_permission_fault)
next
  assume "fst (atBoundary (createPermissionProcedure perm pass) ctx db)
          = Inl (TRPCError FORBIDDEN m)"
  then show "\<forall>k. length (issued db) \<le> k \<and>
           k < length (issued (snd (atBoundary (createPermissionProcedure perm pass) ctx db))) \<longrightarrow>
           map_of (faults db) k = None"
    by (auto simp: atBoundary_def guard_defs less_Suc_eq split: option.splits if_splits)
next
  show "createPermissionProcedure perm nxt ctx db =
       (case createPermissionProcedure perm pass ctx db of
          (Inl err, db') \<Rightarrow> (Inl err, db')
        | (Inr c, db') \<Rightarrow> nxt c db')"
    by (rule createPermissionProcedure_factor)
qed


text \<open>
  An editor asks for \<open>cms.pages.create\<close> while the store rejects the first statement,
  and again while it rejects the second; then, on a store that answers, for
  \<open>orders.view\<close>, which no grant gives him.
\<close>

theorem guard_failures_witness:
  "atBoundary (createPermissionProcedure ''cms.pages.create'' probe) signedIn
      (handle editorStore [(0, ''connection refused'')]) =
     (Inl (TRPCError INTERNAL_SERVER_ERROR (Some ''connection refused'')),
      (handle editorStore [(0, ''connection refused'')])
        \<lparr>issued := [UserRolesJoinRoles ''U0001'']\<rparr>)
   \<and> atBoundary (createPermissionProcedure ''cms.pages.create'' probe) signedIn
      (handle editorStore [(1, ''connection lost'')]) =
     (Inl (TRPCError INTERNAL_SERVER_ERROR (Some ''connection lost'')),
      (handle editorStore [(1, ''connection lost'')])
        \<lparr>issued := [UserRolesJoinRoles ''U0001'',
                    UserRolesJoinPermissions ''U0001'' ''cms.pages.create'']\<rparr>)
   \<and> fst (atBoundary (createPermissionProcedure ''orders.view'' pass) signedIn
          (handle editorStore [])) =
       Inl (TRPCError FORBIDDEN
             (Some (''Permission '' @ CHR 0x27 # ''orders.view'' @ CHR 0x27 # '' required'')))"
proof -
  let ?down = "handle editorStore [(0, ''connection refused'')]"
  let ?lost = "handle editorStore [(1, ''connection lost'')]"
  let ?refused = "TRPCError FORBIDDEN
             (Some (''Permission '' @ CHR 0x27 # ''orders.view'' @ CHR 0x27 # '' required''))"
  have adm: "rolesOf ''U0001'' editorStore \<inter> set ADMIN_ROLES \<noteq> {}"
    and sup: "''super_admin'' \<notin> rolesOf ''U0001'' editorStore"
    by (simp_all add: rolesOf_editorStore admin_role_defs)
  have nochain: "\<not> grantChain editorStore ''U0001'' ''orders.view''"
    by (simp add: grantChain_def editorStore_def store_defs)
  from guard_failures [where perm = "''cms.pages.create''" and ctx = signedIn
        and db = ?down and s = johnDoe and e = "TRPCError INTERNAL_SERVER_ERROR (Some ''connection refused'')"
        and ?msg1.0 = "''connection refused''" and ?msg2.0 = "''connection refused''"
        and m = None and nxt = probe]
  have a: "atBoundary (createPermissionProcedure ''cms.pages.create'' probe) signedIn ?down =
     (Inl (TRPCError INTERNAL_SERVER_ERROR (Some ''connection refused'')),
      ?down\<lparr>issued := [UserRolesJoinRoles ''U0001'']\<rparr>)"
    by (simp add: signedIn_session johnDoe_id handle_def)
  from guard_failures [where perm = "''cms.pages.create''" and ctx = signedIn
        and db = ?lost and s = johnDoe and e = "TRPCError INTERNAL_SERVER_ERROR (Some ''connection lost'')"
        and ?msg1.0 = "''connection lost''" and ?msg2.0 = "''connection lost''"
        and m = None and nxt = probe] adm sup
  have b: "atBoundary (createPermissionProcedure ''cms.pages.create'' probe) signedIn ?lost =
     (Inl (TRPCError INTERNAL_SERVER_ERROR (Some ''connection lost'')),
      ?lost\<lparr>issued := [UserRolesJoinRoles ''U0001'',
                    UserRolesJoinPermissions ''U0001'' ''cms.pages.create'']\<rparr>)"
    by (simp add: signedIn_session johnDoe_id handle_def)
  have c: "fst (atBoundary (createPermissionProcedure ''orders.view'' pass) signedIn
          (handle editorStore [])) = Inl ?refused"
    using adm sup nochain
    by (simp add: atBoundary_def
        createPermissionProcedure_answered [OF signedIn_session handle_no_faults handle_no_faults]
        johnDoe_id handle_tables permissionMessage_def)
  from a b c show ?thesis by simp
qed

end
